theory Spec2Isabelle
  imports Main
begin

section \<open>ResConv: the resume converter of \<^verbatim>\<open>converter.py\<close>\<close>

text \<open>
  The repository is glue code around three external converters (the \<^verbatim>\<open>docx2pdf\<close>
  library, the \<^verbatim>\<open>pdf2docx\<close> library and the \<^verbatim>\<open>soffice\<close> binary).  The embedding
  follows \<^verbatim>\<open>converter.py\<close> function by function.  What the file imports from Python's
  standard library (\<^verbatim>\<open>pathlib\<close>, \<^verbatim>\<open>subprocess.run\<close>, \<^verbatim>\<open>shutil.which\<close>) is
  modelled below as far as the code uses it; the three converters are parameters of the
  model, since nothing in the repository fixes what they do.

  Scope of the model:
  \<^item> strings are byte strings and \<^verbatim>\<open>str.lower\<close> folds the ASCII letters only;
  \<^item> paths are POSIX paths (\<^verbatim>\<open>PurePosixPath\<close> with root \<^verbatim>\<open>/\<close> or none), and
    \<^verbatim>\<open>suffix\<close> is the one of Python up to 3.13;
  \<^item> the file system has regular files and directories, no symbolic links and no
    permissions; \<^verbatim>\<open>rename\<close> follows POSIX \<^verbatim>\<open>rename(2)\<close>;
  \<^item> \<^verbatim>\<open>mkdir\<close> walks the path as it is written, component by component, so that a
    directory named before a \<^verbatim>\<open>..\<close> is created when it is missing and must not be a
    regular file; \<^verbatim>\<open>exists\<close> and \<^verbatim>\<open>rename\<close> look a path up where it leads once
    \<^verbatim>\<open>..\<close> is folded away, which is where the operating system arrives as long as the
    directories that the path goes through are there (the code applies them to a
    resolved source and to paths in the directory that \<^verbatim>\<open>mkdir\<close> has just made);
  \<^item> a process that was located may still fail to start: \<^verbatim>\<open>subprocess.run\<close> then
    raises an \<^verbatim>\<open>OSError\<close> or a \<^verbatim>\<open>ValueError\<close>, not a \<^verbatim>\<open>CalledProcessError\<close>;
  \<^item> \<^verbatim>\<open>print\<close> is left out (no claim is about the messages), and so are the
    import-time installation of LibreOffice and the \<^verbatim>\<open>__main__\<close> block.
\<close>

subsection \<open>Strings\<close>

definition lower_char :: "char \<Rightarrow> char" where
  "lower_char c =
     (case map_of (zip ''ABCDEFGHIJKLMNOPQRSTUVWXYZ'' ''abcdefghijklmnopqrstuvwxyz'') c of
        Some d \<Rightarrow> d
      | None \<Rightarrow> c)"

definition lower :: "string \<Rightarrow> string" where
  "lower s = map lower_char s"

text \<open>\<^verbatim>\<open>s.rfind(c)\<close>: the last index of \<open>c\<close>, \<open>None\<close> for Python's \<open>-1\<close>.\<close>

fun rfind :: "char \<Rightarrow> string \<Rightarrow> nat option" where
  "rfind c [] = None"
| "rfind c (x # xs) =
     (case rfind c xs of
        Some i \<Rightarrow> Some (Suc i)
      | None \<Rightarrow> if x = c then Some 0 else None)"

text \<open>\<^verbatim>\<open>s.split('/')\<close>, which always returns at least one piece.\<close>

fun split_sep :: "string \<Rightarrow> string list" where
  "split_sep [] = [[]]"
| "split_sep (c # cs) =
     (if c = CHR ''/'' then [] # split_sep cs
      else (case split_sep cs of
              p # ps \<Rightarrow> (c # p) # ps
            | [] \<Rightarrow> [[c]]))"

fun join_sep :: "string list \<Rightarrow> string" where
  "join_sep [] = []"
| "join_sep [p] = p"
| "join_sep (p # q # ps) = p @ ''/'' @ join_sep (q # ps)"

subsection \<open>\<^verbatim>\<open>pathlib\<close> paths\<close>

text \<open>
  A path object is its root flag and its parts, as \<^verbatim>\<open>pathlib\<close> keeps them after
  parsing: no part is empty, \<^verbatim>\<open>.\<close> or contains a separator; \<^verbatim>\<open>..\<close> is kept.
  Equality of path objects is equality of these two fields, which is what
  \<^verbatim>\<open>!=\<close> on line 72 compares.
\<close>

datatype path = Path (is_abs: bool) (parts: "string list")

text \<open>\<^verbatim>\<open>Path(s)\<close>\<close>

definition parse_path :: "string \<Rightarrow> path" where
  "parse_path s =
     Path (s \<noteq> [] \<and> hd s = CHR ''/'')
          (filter (\<lambda>p. p \<noteq> [] \<and> p \<noteq> ''.'') (split_sep s))"

text \<open>\<^verbatim>\<open>str(p)\<close>\<close>

definition path_str :: "path \<Rightarrow> string" where
  "path_str p =
     (if is_abs p then ''/'' @ join_sep (parts p)
      else if parts p = [] then ''.''
      else join_sep (parts p))"

text \<open>\<^verbatim>\<open>p.name\<close>, \<^verbatim>\<open>p.parent\<close>, \<^verbatim>\<open>p / s\<close>\<close>

definition name :: "path \<Rightarrow> string" where
  "name p = (if parts p = [] then [] else last (parts p))"

definition parent :: "path \<Rightarrow> path" where
  "parent p = Path (is_abs p) (butlast (parts p))"

definition joinpath :: "path \<Rightarrow> string \<Rightarrow> path" where
  "joinpath p s =
     (let q = parse_path s
      in if is_abs q then q else Path (is_abs p) (parts p @ parts q))"

text \<open>
  \<^verbatim>\<open>p.suffix\<close>:
  \<^verbatim>\<open>i = name.rfind('.'); return name[i:] if 0 < i < len(name) - 1 else ''\<close>
\<close>

definition name_suffix :: "string \<Rightarrow> string" where
  "name_suffix n =
     (case rfind CHR ''.'' n of
        None \<Rightarrow> []
      | Some i \<Rightarrow> if 0 < i \<and> Suc i < length n then drop i n else [])"

definition suffix :: "path \<Rightarrow> string" where
  "suffix p = name_suffix (name p)"

datatype exn =
    ValueError string
  | RuntimeError string
  | FileNotFoundError string
  | FileExistsError
  | NotADirectoryError
  | IsADirectoryError
  | OSError string
  | CalledProcessError int
  | LibraryError string

text \<open>
  \<^verbatim>\<open>p.with_suffix(s)\<close>, with its three \<^verbatim>\<open>ValueError\<close>s: a separator in the suffix,
  a suffix that does not start with a dot or is only a dot, and a path with an empty
  name.
\<close>

definition with_suffix :: "path \<Rightarrow> string \<Rightarrow> exn + path" where
  "with_suffix p s =
     (if CHR ''/'' \<in> set s then Inl (ValueError ''Invalid suffix'')
      else if s \<noteq> [] \<and> hd s \<noteq> CHR ''.'' then Inl (ValueError ''Invalid suffix'')
      else if s = ''.'' then Inl (ValueError ''Invalid suffix'')
      else if name p = [] then Inl (ValueError ''has an empty name'')
      else Inr (Path (is_abs p)
                  (butlast (parts p) @
                   [take (length (name p) - length (suffix p)) (name p) @ s])))"

text \<open>
  \<^verbatim>\<open>p.resolve()\<close> without symbolic links: the path is made absolute against the
  working directory and \<^verbatim>\<open>..\<close> is folded away (at the root it stays at the root).
\<close>

fun normalise :: "string list \<Rightarrow> string list \<Rightarrow> string list" where
  "normalise acc [] = acc"
| "normalise acc (p # ps) =
     (if p = ''..'' then normalise (butlast acc) ps else normalise (acc @ [p]) ps)"

definition resolve :: "string list \<Rightarrow> path \<Rightarrow> path" where
  "resolve cwd p =
     Path True (normalise [] (if is_abs p then parts p else cwd @ parts p))"

subsection \<open>The file system\<close>

text \<open>
  A file system is an association list from resolved paths (the parts below the root) to
  nodes, read with \<^const>\<open>map_of\<close>; the root is always a directory.  A path object
  names its key, its parts resolved against the working directory with \<^verbatim>\<open>..\<close>
  folded away; this is where the operating system arrives when the directories that the
  path goes through exist.
\<close>

datatype node = File string | Dir

type_synonym key = "string list"
type_synonym fs = "(key \<times> node) list"

definition fs_node :: "fs \<Rightarrow> key \<Rightarrow> node option" where
  "fs_node t k = (if k = [] then Some Dir else map_of t k)"

definition fs_put :: "key \<Rightarrow> node \<Rightarrow> fs \<Rightarrow> fs" where
  "fs_put k n t = (k, n) # t"

text \<open>\<open>at_or_below a k\<close>: \<open>k\<close> is \<open>a\<close> or lies below it.\<close>

definition at_or_below :: "key \<Rightarrow> key \<Rightarrow> bool" where
  "at_or_below a k = (take (length a) k = a)"

definition dir_empty :: "fs \<Rightarrow> key \<Rightarrow> bool" where
  "dir_empty t b = list_all (\<lambda>(q, n). \<not> (at_or_below b q \<and> q \<noteq> b)) t"

text \<open>
  How the operating system walks the parts of a path from a directory: \<^verbatim>\<open>..\<close> steps
  to the parent, every part but the last must be an existing directory
  (\<^verbatim>\<open>ENOENT\<close> when it is missing, \<^verbatim>\<open>ENOTDIR\<close> when it is a file), and the last
  part need not exist.  The result is the key that the path names.
\<close>

fun os_walk :: "fs \<Rightarrow> key \<Rightarrow> string list \<Rightarrow> exn + key" where
  "os_walk t cur [] = Inr cur"
| "os_walk t cur (p # ps) =
     (if p = ''..'' then os_walk t (butlast cur) ps
      else if ps = [] then Inr (cur @ [p])
      else (case fs_node t (cur @ [p]) of
              Some Dir \<Rightarrow> os_walk t (cur @ [p]) ps
            | Some (File c) \<Rightarrow> Inl NotADirectoryError
            | None \<Rightarrow> Inl (FileNotFoundError ''walk'')))"

text \<open>
  \<^verbatim>\<open>os.mkdir\<close>: the path must name nothing yet, in an existing directory.
\<close>

definition os_mkdir :: "fs \<Rightarrow> key \<Rightarrow> string list \<Rightarrow> exn + fs" where
  "os_mkdir t start ps =
     (case os_walk t start ps of
        Inl e \<Rightarrow> Inl e
      | Inr k \<Rightarrow>
          (case fs_node t k of
             Some n \<Rightarrow> Inl FileExistsError
           | None \<Rightarrow>
               (case fs_node t (butlast k) of
                  Some Dir \<Rightarrow> Inr (fs_put k Dir t)
                | Some (File c) \<Rightarrow> Inl NotADirectoryError
                | None \<Rightarrow> Inl (FileNotFoundError ''mkdir''))))"

text \<open>\<^verbatim>\<open>Path.is_dir\<close>, false also when the path cannot be walked.\<close>

definition os_is_dir :: "fs \<Rightarrow> key \<Rightarrow> string list \<Rightarrow> bool" where
  "os_is_dir t start ps =
     (case os_walk t start ps of
        Inl e \<Rightarrow> False
      | Inr k \<Rightarrow> fs_node t k = Some Dir)"

fun is_FileNotFoundError :: "exn \<Rightarrow> bool" where
  "is_FileNotFoundError (FileNotFoundError m) = True"
| "is_FileNotFoundError e = False"

text \<open>
  \<^verbatim>\<open>Path.mkdir(parents=True, exist_ok=True)\<close> as \<^verbatim>\<open>pathlib\<close> writes it, on the
  parts of the path as they are given:
  \<^verbatim>\<open>
  try: os.mkdir(self)
  except FileNotFoundError:
      if self.parent == self: raise
      self.parent.mkdir(parents=True, exist_ok=True)
      self.mkdir(parents=False, exist_ok=True)
  except OSError:
      if not self.is_dir(): raise
  \<close>
  and the inner \<^verbatim>\<open>mkdir(parents=False, exist_ok=True)\<close> re-raises a
  \<^verbatim>\<open>FileNotFoundError\<close> and accepts any other \<^verbatim>\<open>OSError\<close> when the path is a
  directory.
\<close>

function mkdir_parents :: "fs \<Rightarrow> key \<Rightarrow> string list \<Rightarrow> exn + fs" where
  "mkdir_parents t start ps =
     (case os_mkdir t start ps of
        Inr t' \<Rightarrow> Inr t'
      | Inl e \<Rightarrow>
          if is_FileNotFoundError e
          then (if ps = [] then Inl e
                else (case mkdir_parents t start (butlast ps) of
                        Inl e1 \<Rightarrow> Inl e1
                      | Inr t1 \<Rightarrow>
                          (case os_mkdir t1 start ps of
                             Inr t2 \<Rightarrow> Inr t2
                           | Inl e2 \<Rightarrow>
                               if is_FileNotFoundError e2 then Inl e2
                               else if os_is_dir t1 start ps then Inr t1
                               else Inl e2)))
          else if os_is_dir t start ps then Inr t
          else Inl e)"
  by pat_completeness auto
termination
  by (relation "measure (\<lambda>(t, start, ps). length ps)") auto

text \<open>
  Where the parts \<open>ps\<close> and each of their prefixes (the path and its \<^verbatim>\<open>parents\<close>)
  lead from \<open>start\<close>: the places at which the call above can create a directory.
\<close>

definition mkdir_places :: "key \<Rightarrow> string list \<Rightarrow> key list" where
  "mkdir_places start ps = map (\<lambda>n. normalise start (take n ps)) [0..<Suc (length ps)]"

text \<open>
  The tree at \<open>a\<close> moved to \<open>b\<close>: what was at or below \<open>b\<close> is dropped, what was at
  or below \<open>a\<close> is re-keyed.
\<close>

definition move_tree :: "fs \<Rightarrow> key \<Rightarrow> key \<Rightarrow> fs" where
  "move_tree t a b =
     map (\<lambda>(q, n). (b @ drop (length a) q, n)) (filter (\<lambda>(q, n). at_or_below a q) t) @
     filter (\<lambda>(q, n). \<not> at_or_below a q \<and> \<not> at_or_below b q) t"

text \<open>
  \<^verbatim>\<open>os.rename(a, b)\<close> as POSIX has it: a missing source fails; renaming a path to
  itself does nothing; a file replaces a file but not a directory; a directory replaces
  only an empty directory and cannot move below itself; the parent of a new name must be
  a directory.
\<close>

definition fs_rename :: "fs \<Rightarrow> key \<Rightarrow> key \<Rightarrow> exn + fs" where
  "fs_rename t a b =
     (case fs_node t a of
        None \<Rightarrow> Inl (FileNotFoundError ''rename'')
      | Some n \<Rightarrow>
          if a = b then Inr t
          else if a = [] then Inl (OSError ''EBUSY'')
          else (case fs_node t b of
                  Some Dir \<Rightarrow>
                    (if n \<noteq> Dir then Inl IsADirectoryError
                     else if at_or_below a b then Inl (OSError ''EINVAL'')
                     else if b = [] then Inl (OSError ''EBUSY'')
                     else if dir_empty t b then Inr (move_tree t a b)
                     else Inl (OSError ''ENOTEMPTY''))
                | Some (File c) \<Rightarrow>
                    (if n = Dir then Inl NotADirectoryError else Inr (move_tree t a b))
                | None \<Rightarrow>
                    (case fs_node t (butlast b) of
                       None \<Rightarrow> Inl (FileNotFoundError ''rename'')
                     | Some (File c) \<Rightarrow> Inl NotADirectoryError
                     | Some Dir \<Rightarrow>
                         if n = Dir \<and> at_or_below a b then Inl (OSError ''EINVAL'')
                         else Inr (move_tree t a b))))"

subsection \<open>The environment of a call and the state it changes\<close>

text \<open>
  What a call can observe from outside is the trace: each call of an external converter,
  each \<^verbatim>\<open>subprocess.run\<close> with its \<^verbatim>\<open>check\<close> and \<^verbatim>\<open>capture_output\<close> arguments,
  and what a child process wrote to the standard streams it inherited from the caller.
\<close>

datatype event =
    Docx2pdf_call string string
  | Pdf2docx_call string string
  | Subprocess_run "string list" bool bool
  | Child_output string
  | Upload_call

record world =
  fs :: fs
  trace :: "event list"

text \<open>
  The environment holds what the code reads and calls but does not define:
  \<^item> \<open>cwd\<close>, the working directory;
  \<^item> \<open>which_soffice\<close>, the value of \<^verbatim>\<open>shutil.which("soffice")\<close>;
  \<^item> \<open>docx2pdf\<close>, the library call \<^verbatim>\<open>docx_to_pdf(src, dst)\<close>: the exception it
    raises, if any, and the file system it leaves;
  \<^item> \<open>run_proc\<close>, what happens when a process is started for an argument vector:
    either it runs to its end, with its exit status, what it writes to its standard
    streams and the file system it leaves, or it cannot be started (the program found
    by \<^verbatim>\<open>which\<close> is gone by then, or the operating system cannot execute it, or
    an argument has a null byte in it);
  \<^item> \<open>pdf2docx\<close>, the three library calls \<^verbatim>\<open>PDF2DOCX(src)\<close>,
    \<^verbatim>\<open>convert(dst)\<close>, \<^verbatim>\<open>close()\<close> taken together;
  \<^item> \<open>colab_files\<close>, \<open>None\<close> outside Colab, otherwise what each successive
    \<^verbatim>\<open>upload()\<close> will return (names and contents, in the order of the dictionary).
  The converters are taken to return or raise an \<^verbatim>\<open>Exception\<close>; one that never
  returns is outside the model.
\<close>

datatype start_error = No_such_file | Exec_error string | Bad_argument string

datatype proc_result = Exited int string fs | Not_started start_error

record env =
  cwd :: key
  which_soffice :: "string option"
  docx2pdf :: "string \<Rightarrow> string \<Rightarrow> fs \<Rightarrow> exn option \<times> fs"
  run_proc :: "string list \<Rightarrow> fs \<Rightarrow> proc_result"
  pdf2docx :: "string \<Rightarrow> string \<Rightarrow> fs \<Rightarrow> exn option \<times> fs"
  colab_files :: "(string \<times> string) list list option"

datatype 'a result = Returns 'a | Raises exn | Hangs

definition fskey :: "env \<Rightarrow> path \<Rightarrow> key" where
  "fskey E p = parts (resolve (cwd E) p)"

text \<open>
  \<^verbatim>\<open>p.exists()\<close>, \<^verbatim>\<open>p.mkdir(parents=True, exist_ok=True)\<close>, \<^verbatim>\<open>p.rename(q)\<close>.
  The directories are created along the parts of the path as the code gives it, which
  may name directories that are missing.  \<^verbatim>\<open>exists\<close> and \<^verbatim>\<open>rename\<close> look at the
  key of the path: the code applies them to the source after \<^verbatim>\<open>resolve()\<close> and to
  paths in the destination's directory after that directory has been created, and
  wherever the operating system can walk a path it arrives at its key
  (\<open>os_walk_key\<close> below).
\<close>

definition path_exists :: "env \<Rightarrow> fs \<Rightarrow> path \<Rightarrow> bool" where
  "path_exists E t p = (fs_node t (fskey E p) \<noteq> None)"

definition path_mkdir :: "env \<Rightarrow> fs \<Rightarrow> path \<Rightarrow> exn + fs" where
  "path_mkdir E t p = mkdir_parents t (if is_abs p then [] else cwd E) (parts p)"

definition path_rename :: "env \<Rightarrow> fs \<Rightarrow> path \<Rightarrow> path \<Rightarrow> exn + fs" where
  "path_rename E t p q = fs_rename t (fskey E p) (fskey E q)"

definition mkdir_keys :: "env \<Rightarrow> path \<Rightarrow> key list" where
  "mkdir_keys E p = mkdir_places (if is_abs p then [] else cwd E) (parts p)"

text \<open>
  \<^verbatim>\<open>subprocess.run(argv, check=check, capture_output=capture)\<close>: when the program
  cannot be started the call raises the \<^verbatim>\<open>OSError\<close> of the operating system
  (\<^verbatim>\<open>FileNotFoundError\<close> when the file is missing; \<open>OSError m\<close> stands for any
  other one, \<^verbatim>\<open>PermissionError\<close> included), or the \<^verbatim>\<open>ValueError\<close> for an argument
  that cannot be passed.  Otherwise the child runs to its
  end; without \<^verbatim>\<open>capture_output\<close> it inherits the caller's standard streams and its
  output appears there; with \<^verbatim>\<open>check\<close> a non-zero exit status raises
  \<^verbatim>\<open>CalledProcessError\<close>.
\<close>

fun start_exn :: "string list \<Rightarrow> start_error \<Rightarrow> exn" where
  "start_exn argv No_such_file = FileNotFoundError (concat (take 1 argv))"
| "start_exn argv (Exec_error m) = OSError m"
| "start_exn argv (Bad_argument m) = ValueError m"

definition subprocess_run ::
  "env \<Rightarrow> string list \<Rightarrow> bool \<Rightarrow> bool \<Rightarrow> world \<Rightarrow> unit result \<times> world" where
  "subprocess_run E argv check capture w =
     (case run_proc E argv (fs w) of
        Not_started e \<Rightarrow>
          (Raises (start_exn argv e),
           w\<lparr>trace := trace w @ [Subprocess_run argv check capture]\<rparr>)
      | Exited rc out t' \<Rightarrow>
          (if check \<and> rc \<noteq> 0 then Raises (CalledProcessError rc) else Returns (),
           w\<lparr>fs := t',
             trace := trace w @ Subprocess_run argv check capture #
                      (if capture then [] else [Child_output out])\<rparr>))"

text \<open>The file system after a process, started or not.\<close>

fun proc_fs :: "proc_result \<Rightarrow> fs \<Rightarrow> fs" where
  "proc_fs (Exited rc out t') t = t'"
| "proc_fs (Not_started e) t = t"

subsection \<open>\<^verbatim>\<open>convert_docx_to_pdf\<close> (lines 28 to 48)\<close>

definition soffice_argv :: "string \<Rightarrow> string \<Rightarrow> path \<Rightarrow> path \<Rightarrow> string list" where
  "soffice_argv soffice fmt src dst =
     [soffice, ''--headless'', ''--convert-to'', fmt, ''--outdir'',
      path_str (parent dst), path_str src]"

definition convert_docx_to_pdf :: "env \<Rightarrow> path \<Rightarrow> path \<Rightarrow> world \<Rightarrow> unit result \<times> world" where
  "convert_docx_to_pdf E src dst w =
     (case path_mkdir E (fs w) (parent dst) of
        Inl e \<Rightarrow> (Raises e, w)
      | Inr t1 \<Rightarrow>
          (case docx2pdf E (path_str src) (path_str dst) t1 of
             (r, t2) \<Rightarrow>
               (let w2 = w\<lparr>fs := t2,
                            trace := trace w @ [Docx2pdf_call (path_str src) (path_str dst)]\<rparr>
                in case r of
                     None \<Rightarrow> (Returns (), w2)
                   | Some e \<Rightarrow>
                       (case which_soffice E of
                          None \<Rightarrow>
                            (Raises (RuntimeError
                               ''docx2pdf requires Word and LibreOffice (soffice) was not found for fallback.''),
                             w2)
                        | Some soffice \<Rightarrow>
                            subprocess_run E (soffice_argv soffice ''pdf'' src dst) True False w2))))"

subsection \<open>\<^verbatim>\<open>convert_pdf_to_docx\<close> (lines 51 to 81)\<close>

text \<open>The body of the \<^verbatim>\<open>try\<close>, lines 57 to 74.\<close>

definition soffice_tier :: "env \<Rightarrow> string \<Rightarrow> path \<Rightarrow> path \<Rightarrow> world \<Rightarrow> unit result \<times> world" where
  "soffice_tier E soffice src dst w =
     (case subprocess_run E (soffice_argv soffice ''docx'' src dst) True True w of
        (Returns u, w2) \<Rightarrow>
          (case with_suffix src ''.docx'' of
             Inl e \<Rightarrow> (Raises e, w2)
           | Inr p \<Rightarrow>
               (let libreoffice_output = joinpath (parent dst) (name p)
                in if path_exists E (fs w2) libreoffice_output \<and> libreoffice_output \<noteq> dst
                   then (case path_rename E (fs w2) libreoffice_output dst of
                           Inl e \<Rightarrow> (Raises e, w2)
                         | Inr t3 \<Rightarrow> (Returns (), w2\<lparr>fs := t3\<rparr>))
                   else (Returns (), w2)))
      | (r, w2) \<Rightarrow> (r, w2))"

text \<open>What \<^verbatim>\<open>except subprocess.CalledProcessError\<close> on line 75 catches.\<close>

fun is_CalledProcessError :: "unit result \<Rightarrow> bool" where
  "is_CalledProcessError (Raises (CalledProcessError rc)) = True"
| "is_CalledProcessError r = False"

text \<open>Lines 79 to 81.\<close>

definition pdf2docx_tier :: "env \<Rightarrow> path \<Rightarrow> path \<Rightarrow> world \<Rightarrow> unit result \<times> world" where
  "pdf2docx_tier E src dst w =
     (case pdf2docx E (path_str src) (path_str dst) (fs w) of
        (r, t') \<Rightarrow>
          (case r of None \<Rightarrow> Returns () | Some e \<Rightarrow> Raises e,
           w\<lparr>fs := t',
             trace := trace w @ [Pdf2docx_call (path_str src) (path_str dst)]\<rparr>))"

definition convert_pdf_to_docx :: "env \<Rightarrow> path \<Rightarrow> path \<Rightarrow> world \<Rightarrow> unit result \<times> world" where
  "convert_pdf_to_docx E src dst w =
     (case path_mkdir E (fs w) (parent dst) of
        Inl e \<Rightarrow> (Raises e, w)
      | Inr t1 \<Rightarrow>
          (case which_soffice E of
             Some soffice \<Rightarrow>
               (case soffice_tier E soffice src dst (w\<lparr>fs := t1\<rparr>) of
                  (r, w2) \<Rightarrow>
                    if is_CalledProcessError r then pdf2docx_tier E src dst w2 else (r, w2))
           | None \<Rightarrow> pdf2docx_tier E src dst (w\<lparr>fs := t1\<rparr>)))"

subsection \<open>\<^verbatim>\<open>_prompt_for_file\<close> (lines 84 to 102)\<close>

text \<open>
  Each \<^verbatim>\<open>upload()\<close> stores the uploaded files in the working directory and returns
  them; the loop takes the first name of a non-empty upload and starts over unless its
  suffix is supported.  When the uploads run out the call waits for the next one and
  never returns.
\<close>

definition store_upload :: "env \<Rightarrow> (string \<times> string) list \<Rightarrow> fs \<Rightarrow> fs" where
  "store_upload E u t =
     foldl (\<lambda>t' (nm, c). fs_put (fskey E (parse_path nm)) (File c) t') t u"

fun prompt_loop :: "env \<Rightarrow> (string \<times> string) list list \<Rightarrow> world \<Rightarrow> path result \<times> world" where
  "prompt_loop E [] w = (Hangs, w)"
| "prompt_loop E (uploaded # rest) w =
     (let w' = w\<lparr>fs := store_upload E uploaded (fs w), trace := trace w @ [Upload_call]\<rparr>
      in case uploaded of
           [] \<Rightarrow> prompt_loop E rest w'
         | (nm, c) # others \<Rightarrow>
             (let path = resolve (cwd E) (parse_path nm)
              in if lower (suffix path) \<notin> set [''.docx'', ''.pdf'']
                 then prompt_loop E rest w'
                 else (Returns path, w')))"

definition prompt_for_file :: "env \<Rightarrow> world \<Rightarrow> path result \<times> world" where
  "prompt_for_file E w =
     (case colab_files E of
        None \<Rightarrow>
          (Raises (ValueError ''No input provided. Pass a file path when running outside Colab.''), w)
      | Some uploads \<Rightarrow> prompt_loop E uploads w)"

subsection \<open>\<^verbatim>\<open>main\<close> (lines 105 to 160)\<close>

text \<open>
  The arguments as \<^verbatim>\<open>argparse\<close> hands them over: \<^verbatim>\<open>args.input\<close> and
  \<^verbatim>\<open>args.output\<close> are path objects or absent, and \<^verbatim>\<open>args.to\<close> is one of its two
  choices or absent.
\<close>

datatype choice = To_pdf | To_docx

fun choice_str :: "choice \<Rightarrow> string" where
  "choice_str To_pdf = ''pdf''"
| "choice_str To_docx = ''docx''"

record args =
  input_arg :: "path option"
  output_arg :: "path option"
  to_arg :: "choice option"

text \<open>Lines 128 to 131.\<close>

definition main_src :: "env \<Rightarrow> args \<Rightarrow> world \<Rightarrow> path result \<times> world" where
  "main_src E a w =
     (case input_arg a of
        Some p \<Rightarrow> (Returns (resolve (cwd E) p), w)
      | None \<Rightarrow> prompt_for_file E w)"

text \<open>Line 143.\<close>

definition main_target_ext :: "choice option \<Rightarrow> string \<Rightarrow> string" where
  "main_target_ext t src_ext =
     (case t of
        Some c \<Rightarrow> ''.'' @ lower (choice_str c)
      | None \<Rightarrow> if src_ext = ''.docx'' then ''.pdf'' else ''.docx'')"

text \<open>Lines 148 to 153.\<close>

definition main_out :: "path option \<Rightarrow> string \<Rightarrow> exn + path" where
  "main_out out_arg target_ext =
     (case out_arg of
        Some out \<Rightarrow>
          if lower (suffix out) \<noteq> target_ext then with_suffix out target_ext else Inr out
      | None \<Rightarrow> with_suffix (parse_path ''output_resume'') target_ext)"

definition main :: "env \<Rightarrow> args \<Rightarrow> world \<Rightarrow> unit result \<times> world" where
  "main E a w =
     (case main_src E a w of
        (Hangs, w1) \<Rightarrow> (Hangs, w1)
      | (Raises e, w1) \<Rightarrow> (Raises e, w1)
      | (Returns src, w1) \<Rightarrow>
          if \<not> path_exists E (fs w1) src then (Raises (FileNotFoundError (path_str src)), w1)
          else
            (let src_ext = lower (suffix src)
             in if src_ext \<notin> set [''.docx'', ''.pdf'']
                then (Raises (ValueError ''Only .docx and .pdf files are supported.''), w1)
                else
                  (let target_ext = main_target_ext (to_arg a) src_ext
                   in if target_ext = src_ext
                      then (Raises (ValueError
                              ''Input and output types are the same; choose the opposite format.''), w1)
                      else
                        (case main_out (output_arg a) target_ext of
                           Inl e \<Rightarrow> (Raises e, w1)
                         | Inr out \<Rightarrow>
                             if target_ext = ''.pdf'' then convert_docx_to_pdf E src out w1
                             else convert_pdf_to_docx E src out w1))))"

subsection \<open>Concrete hosts\<close>

text \<open>
  An office-suite binary that keeps the file-system contract of the specification
  (section 6): in headless mode it writes its output into the given directory, under
  the base name of the source with the new extension, and exits with status 0; it exits
  with status 1 when it cannot read the source.
\<close>

definition soffice_headless :: "key \<Rightarrow> string list \<Rightarrow> fs \<Rightarrow> proc_result" where
  "soffice_headless wd argv t =
     (case argv of
        [exe, a1, a2, fmt, a4, outdir, src_str] \<Rightarrow>
          if a1 = ''--headless'' \<and> a2 = ''--convert-to'' \<and> a4 = ''--outdir''
          then (case fs_node t (parts (resolve wd (parse_path src_str))) of
                  Some (File c) \<Rightarrow>
                    (case with_suffix (parse_path src_str) (''.'' @ fmt) of
                       Inr p \<Rightarrow>
                         Exited 0 (''convert '' @ src_str)
                           (fs_put (parts (resolve wd (joinpath (parse_path outdir) (name p))))
                              (File (fmt @ '' of '' @ c)) t)
                     | Inl e \<Rightarrow> Exited 1 ''Error: source file could not be loaded'' t)
                | _ \<Rightarrow> Exited 1 ''Error: source file could not be loaded'' t)
          else Exited 1 ''usage'' t
      | _ \<Rightarrow> Exited 1 ''usage'' t)"

text \<open>An office-suite binary that reports an error, writes nothing and still exits with 0.\<close>

definition soffice_no_filter :: "string list \<Rightarrow> fs \<Rightarrow> proc_result" where
  "soffice_no_filter argv t = Exited 0 ''Error: no export filter'' t"

text \<open>\<^verbatim>\<open>docx2pdf\<close> on a host without Microsoft Word: it raises and writes nothing.\<close>

definition docx2pdf_no_word :: "string \<Rightarrow> string \<Rightarrow> fs \<Rightarrow> exn option \<times> fs" where
  "docx2pdf_no_word src_str dst_str t =
     (Some (LibraryError ''docx2pdf is not implemented for linux''), t)"

text \<open>\<^verbatim>\<open>pdf2docx\<close> writing its result to the destination.\<close>

definition pdf2docx_writes :: "key \<Rightarrow> string \<Rightarrow> string \<Rightarrow> fs \<Rightarrow> exn option \<times> fs" where
  "pdf2docx_writes wd src_str dst_str t =
     (case fs_node t (parts (resolve wd (parse_path src_str))) of
        Some (File c) \<Rightarrow>
          (None, fs_put (parts (resolve wd (parse_path dst_str))) (File (''docx of '' @ c)) t)
      | _ \<Rightarrow> (Some (LibraryError ''cannot open''), t))"

text \<open>
  A Linux host with LibreOffice (no Word, so \<^verbatim>\<open>docx2pdf\<close> raises), one whose
  LibreOffice fails silently, and one without LibreOffice; the working directory is
  \<^verbatim>\<open>/w\<close>.
\<close>

definition linux_host :: env where
  "linux_host =
     \<lparr>cwd = [''w''], which_soffice = Some ''/usr/bin/soffice'',
      docx2pdf = docx2pdf_no_word, run_proc = soffice_headless [''w''],
      pdf2docx = pdf2docx_writes [''w''], colab_files = None\<rparr>"

definition silent_host :: env where
  "silent_host = linux_host\<lparr>run_proc := soffice_no_filter\<rparr>"

definition bare_host :: env where
  "bare_host = linux_host\<lparr>which_soffice := None\<rparr>"



text \<open>The working directory with a resume in each format, nothing traced yet.\<close>

definition w0 :: world where
  "w0 =
     \<lparr>fs = [([''w''], Dir),
             ([''w'', ''resume.docx''], File ''my resume''),
             ([''w'', ''cv.pdf''], File ''my cv''),
             ([''w'', ''notes.txt''], File ''my notes'')],
      trace = []\<rparr>"


subsection \<open>Concrete command lines\<close>

text \<open>
  \<^verbatim>\<open>main(['resume.docx'])\<close>,
  \<^verbatim>\<open>main(['resume.docx', '--to', 'docx'])\<close>, \<^verbatim>\<open>main(['missing.docx', '--to', 'docx'])\<close>,
  \<^verbatim>\<open>main(['notes.txt'])\<close>, \<^verbatim>\<open>main(['missing.txt'])\<close>,
  \<^verbatim>\<open>main(['resume.docx', '-o', 'out.PDF'])\<close>, \<^verbatim>\<open>main(['cv.pdf', '-o', 'out.txt'])\<close>.
\<close>

definition args_docx :: args where
  "args_docx = \<lparr>input_arg = Some (Path False [''resume.docx'']), output_arg = None, to_arg = None\<rparr>"





definition args_upper_out :: args where
  "args_upper_out =
     \<lparr>input_arg = Some (Path False [''resume.docx'']), output_arg = Some (Path False [''out.PDF'']),
      to_arg = None\<rparr>"

definition args_txt_out :: args where
  "args_txt_out =
     \<lparr>input_arg = Some (Path False [''cv.pdf'']), output_arg = Some (Path False [''out.txt'']),
      to_arg = None\<rparr>"

section \<open>Properties\<close>

subsection \<open>Looking up a moved tree\<close>

lemma map_of_filter_keys:
  "map_of (filter (\<lambda>(q, n). P q) t) k = (if P k then map_of t k else None)"
  by (induction t) auto

lemma below_rekey:
  assumes "at_or_below a q"
  shows "b @ drop (length a) q = k \<longleftrightarrow> at_or_below b k \<and> q = a @ drop (length b) k"
proof -
  from assms have q: "q = a @ drop (length a) q"
    unfolding at_or_below_def by (metis append_take_drop_id)
  show ?thesis
  proof
    assume "b @ drop (length a) q = k"
    then have k: "k = b @ drop (length a) q" by simp
    show "at_or_below b k \<and> q = a @ drop (length b) k"
      using q by (simp add: k at_or_below_def)
  next
    assume h: "at_or_below b k \<and> q = a @ drop (length b) k"
    then have "k = b @ drop (length b) k"
      unfolding at_or_below_def by (metis append_take_drop_id)
    moreover from h have "drop (length a) q = drop (length b) k"
      by (metis append_eq_conv_conj)
    ultimately show "b @ drop (length a) q = k" by simp
  qed
qed

lemma below_append: "at_or_below a (a @ r)"
  by (simp add: at_or_below_def)

lemma map_of_rekey:
  "map_of (map (\<lambda>(q, n). (b @ drop (length a) q, n)) (filter (\<lambda>(q, n). at_or_below a q) t)) k =
     (if at_or_below b k then map_of t (a @ drop (length b) k) else None)"
proof (induction t)
  case Nil
  then show ?case by simp
next
  case (Cons x t)
  obtain q n where x: "x = (q, n)" by (cases x)
  show ?case
  proof (cases "at_or_below a q")
    case True
    note r = below_rekey [OF True, of b k]
    show ?thesis
    proof (cases "b @ drop (length a) q = k")
      case True
      with r \<open>at_or_below a q\<close> show ?thesis by (simp add: x)
    next
      case False
      with r \<open>at_or_below a q\<close> Cons show ?thesis by (auto simp: x)
    qed
  next
    case False
    then have "q \<noteq> a @ drop (length b) k"
      using below_append by blast
    with False Cons show ?thesis by (simp add: x)
  qed
qed

lemma fs_node_move_tree:
  "fs_node (move_tree t a b) k =
     (if k = [] then Some Dir
      else if at_or_below b k then map_of t (a @ drop (length b) k)
      else if at_or_below a k then None
      else map_of t k)"
  unfolding fs_node_def move_tree_def
  by (simp add: map_of_append map_add_def map_of_rekey map_of_filter_keys split: option.splits)

subsection \<open>Reading the file system\<close>

lemma fs_node_put:
  "fs_node (fs_put k n t) q = (if q = [] then Some Dir else if q = k then Some n else fs_node t q)"
  by (simp add: fs_node_def fs_put_def)

lemma fs_node_root: "fs_node t [] = Some Dir"
  by (simp add: fs_node_def)

subsection \<open>Renaming\<close>

lemma fs_rename_cases:
  "fs_rename t a b = Inr t' \<Longrightarrow> t' = t \<and> a = b \<or> t' = move_tree t a b \<and> a \<noteq> b \<and> a \<noteq> [] \<and> b \<noteq> []"
  by (simp add: fs_rename_def fs_node_def split: option.splits node.splits if_splits)




lemma fs_rename_frame:
  assumes "fs_rename t a b = Inr t'" and "\<not> at_or_below a q" and "\<not> at_or_below b q"
  shows "fs_node t' q = fs_node t q"
proof -
  have "fs_node (move_tree t a b) q = (if q = [] then Some Dir else map_of t q)"
    using assms(2,3) by (simp add: fs_node_move_tree)
  also have "\<dots> = fs_node t q"
    by (simp add: fs_node_def)
  finally have "fs_node (move_tree t a b) q = fs_node t q" .
  with fs_rename_cases [OF assms(1)] show ?thesis by auto
qed

subsection \<open>Creating directories\<close>

text \<open>Creating directories only adds directories where nothing was.\<close>

lemma os_mkdir_result:
  assumes "os_mkdir t start ps = Inr t'"
  shows "\<exists>k. os_walk t start ps = Inr k \<and> t' = fs_put k Dir t \<and> fs_node t k = None"
  using assms
  by (auto simp: os_mkdir_def split: sum.splits option.splits node.splits)

lemma fs_put_new_dir:
  assumes "fs_node t k = None"
  shows "fs_node (fs_put k Dir t) q = fs_node t q \<or>
         (fs_node t q = None \<and> fs_node (fs_put k Dir t) q = Some Dir)"
  using assms by (auto simp: fs_node_put fs_node_root)

lemma os_mkdir_only_adds_a_directory:
  assumes "os_mkdir t start ps = Inr t'"
  shows "fs_node t' q = fs_node t q \<or> (fs_node t q = None \<and> fs_node t' q = Some Dir)"
proof -
  from os_mkdir_result [OF assms] obtain k where "t' = fs_put k Dir t" and "fs_node t k = None"
    by blast
  then show ?thesis using fs_put_new_dir by simp
qed

lemma mkdir_parents_only_adds_directories:
  "mkdir_parents t start ps = Inr t' \<Longrightarrow>
     fs_node t' q = fs_node t q \<or> (fs_node t q = None \<and> fs_node t' q = Some Dir)"
proof (induction t start ps arbitrary: t' rule: mkdir_parents.induct)
  case (1 t start ps)
  show ?case
  proof (cases "os_mkdir t start ps")
    case (Inr t0)
    with "1.prems" have "t' = t0"
      by (simp add: mkdir_parents.simps [of t start ps])
    with os_mkdir_only_adds_a_directory [OF Inr] show ?thesis by simp
  next
    case (Inl e)
    show ?thesis
    proof (cases "is_FileNotFoundError e")
      case False
      with Inl "1.prems" have "t' = t"
        by (simp add: mkdir_parents.simps [of t start ps] split: if_splits)
      then show ?thesis by simp
    next
      case True
      with Inl "1.prems" have ps: "ps \<noteq> []"
        by (auto simp: mkdir_parents.simps [of t start ps] split: if_splits)
      with Inl True "1.prems" obtain t1 where
        r: "mkdir_parents t start (butlast ps) = Inr t1"
        by (cases "mkdir_parents t start (butlast ps)")
           (simp_all add: mkdir_parents.simps [of t start ps])
      from "1.IH" [OF Inl True ps r]
      have s1: "fs_node t1 q = fs_node t q \<or> (fs_node t q = None \<and> fs_node t1 q = Some Dir)" .
      show ?thesis
      proof (cases "os_mkdir t1 start ps")
        case (Inr t2)
        with Inl True ps r "1.prems" have "t' = t2"
          by (simp add: mkdir_parents.simps [of t start ps])
        with os_mkdir_only_adds_a_directory [OF Inr, of q] s1 show ?thesis
          by auto
      next
        case (Inl e2)
        with \<open>os_mkdir t start ps = Inl e\<close> True ps r "1.prems" have "t' = t1"
          by (simp add: mkdir_parents.simps [of t start ps] split: if_splits)
        with s1 show ?thesis by simp
      qed
    qed
  qed
qed

lemma path_mkdir_only_adds_directories:
  assumes "path_mkdir E t p = Inr t'"
  shows "fs_node t' q = fs_node t q \<or> (fs_node t q = None \<and> fs_node t' q = Some Dir)"
  using assms unfolding path_mkdir_def by (rule mkdir_parents_only_adds_directories)

lemma path_mkdir_keeps:
  assumes "path_mkdir E t p = Inr t'" and "fs_node t q \<noteq> None"
  shows "fs_node t' q = fs_node t q"
  using path_mkdir_only_adds_directories [OF assms(1), of q] assms(2) by auto

subsection \<open>Where the operating system arrives\<close>

text \<open>
  A path that the operating system can walk leads to its key, and after
  \<^verbatim>\<open>mkdir(parents=True, exist_ok=True)\<close> the path is a directory that it can walk to.
\<close>

lemma os_walk_normalise: "os_walk t cur ps = Inr k \<Longrightarrow> k = normalise cur ps"
proof (induction ps arbitrary: cur)
  case Nil
  then show ?case by simp
next
  case (Cons p ps)
  show ?case
  proof (cases "p = ''..''")
    case True
    with Cons show ?thesis by simp
  next
    case False
    show ?thesis
    proof (cases "ps = []")
      case True
      with False Cons.prems show ?thesis by simp
    next
      case ne: False
      with False Cons.prems have "os_walk t (cur @ [p]) ps = Inr k"
        by (simp split: option.splits node.splits)
      from Cons.IH [OF this] False show ?thesis by simp
    qed
  qed
qed

lemma normalise_plain_prefix:
  "''..'' \<notin> set xs \<Longrightarrow> normalise acc (xs @ ys) = normalise (acc @ xs) ys"
  by (induction xs arbitrary: acc) auto

lemma os_walk_key:
  assumes "''..'' \<notin> set (cwd E)"
    and "os_walk t (if is_abs p then [] else cwd E) (parts p) = Inr k"
  shows "k = fskey E p"
  using os_walk_normalise [OF assms(2)] normalise_plain_prefix [OF assms(1), of "[]" "parts p"]
  by (simp add: fskey_def resolve_def)

lemma os_walk_after_put:
  "os_walk t cur ps = Inr k' \<Longrightarrow> os_walk (fs_put k Dir t) cur ps = Inr k'"
proof (induction ps arbitrary: cur)
  case Nil
  then show ?case by simp
next
  case (Cons p ps)
  show ?case
  proof (cases "p = ''..'' \<or> ps = []")
    case True
    with Cons show ?thesis by auto
  next
    case False
    with Cons.prems have d: "fs_node t (cur @ [p]) = Some Dir"
      and w: "os_walk t (cur @ [p]) ps = Inr k'"
      by (auto split: option.splits node.splits)
    from d have "fs_node (fs_put k Dir t) (cur @ [p]) = Some Dir"
      by (simp add: fs_node_put)
    with Cons.IH [OF w] False show ?thesis by simp
  qed
qed

lemma os_mkdir_is_dir:
  assumes "os_mkdir t start ps = Inr t'"
  shows "os_is_dir t' start ps"
proof -
  from os_mkdir_result [OF assms] obtain k where
    w: "os_walk t start ps = Inr k" and t': "t' = fs_put k Dir t" and n: "fs_node t k = None"
    by blast
  from n have "k \<noteq> []" by (auto simp: fs_node_def)
  with os_walk_after_put [OF w, of k] t' show ?thesis
    by (simp add: os_is_dir_def fs_node_put)
qed

text \<open>After the directories have been created the path is a directory the system can walk to.\<close>

lemma mkdir_parents_is_dir:
  assumes "mkdir_parents t start ps = Inr t'"
  shows "os_is_dir t' start ps"
proof (cases "os_mkdir t start ps")
  case (Inr t0)
  with assms os_mkdir_is_dir [OF Inr] show ?thesis
    by (simp add: mkdir_parents.simps [of t start ps])
next
  case (Inl e)
  show ?thesis
  proof (cases "is_FileNotFoundError e")
    case False
    with Inl assms show ?thesis
      by (simp add: mkdir_parents.simps [of t start ps] split: if_splits)
  next
    case True
    with Inl assms have ps: "ps \<noteq> []"
      by (auto simp: mkdir_parents.simps [of t start ps] split: if_splits)
    with Inl True assms obtain t1 where
      r: "mkdir_parents t start (butlast ps) = Inr t1"
      by (cases "mkdir_parents t start (butlast ps)")
         (simp_all add: mkdir_parents.simps [of t start ps])
    show ?thesis
    proof (cases "os_mkdir t1 start ps")
      case (Inr t2)
      with Inl True ps r assms os_mkdir_is_dir [OF Inr] show ?thesis
        by (simp add: mkdir_parents.simps [of t start ps])
    next
      case (Inl e2)
      with \<open>os_mkdir t start ps = Inl e\<close> True ps r assms show ?thesis
        by (simp add: mkdir_parents.simps [of t start ps] split: if_splits)
    qed
  qed
qed

lemma path_mkdir_makes_directory:
  assumes "path_mkdir E t p = Inr t'" and "''..'' \<notin> set (cwd E)"
  shows "fs_node t' (fskey E p) = Some Dir"
proof -
  from assms(1) have "os_is_dir t' (if is_abs p then [] else cwd E) (parts p)"
    unfolding path_mkdir_def by (rule mkdir_parents_is_dir)
  then obtain k where w: "os_walk t' (if is_abs p then [] else cwd E) (parts p) = Inr k"
    and d: "fs_node t' k = Some Dir"
    by (auto simp: os_is_dir_def split: sum.splits)
  from os_walk_key [OF assms(2) w] d show ?thesis by simp
qed

text \<open>A directory is created only where the path or one of its parents leads.\<close>

lemma os_mkdir_adds_at:
  assumes "os_mkdir t start ps = Inr t'" and "fs_node t' q \<noteq> fs_node t q"
  shows "q = normalise start ps"
proof -
  from os_mkdir_result [OF assms(1)] obtain k where
    k: "os_walk t start ps = Inr k" and t': "t' = fs_put k Dir t"
    by blast
  from assms(2) t' have "q = k"
    by (auto simp: fs_node_put fs_node_root split: if_splits)
  with os_walk_normalise [OF k] show ?thesis by simp
qed

lemma mkdir_parents_adds_on_the_way:
  "mkdir_parents t start ps = Inr t' \<Longrightarrow> fs_node t' q \<noteq> fs_node t q \<Longrightarrow>
     \<exists>n. n \<le> length ps \<and> q = normalise start (take n ps)"
proof (induction t start ps arbitrary: t' rule: mkdir_parents.induct)
  case (1 t start ps)
  have here: "\<exists>n. n \<le> length ps \<and> normalise start ps = normalise start (take n ps)"
    by (intro exI [of _ "length ps"]) simp
  have up: "\<exists>n. n \<le> length ps \<and> q = normalise start (take n ps)"
    if "\<exists>n. n \<le> length (butlast ps) \<and> q = normalise start (take n (butlast ps))"
  proof -
    from that obtain n where n: "n \<le> length (butlast ps)"
      and q: "q = normalise start (take n (butlast ps))"
      by blast
    from n have "take n (butlast ps) = take n ps"
      by (simp add: take_butlast butlast_conv_take)
    with n q show ?thesis
      by (intro exI [of _ n]) simp
  qed
  show ?case
  proof (cases "os_mkdir t start ps")
    case (Inr t0)
    with "1.prems" have "t' = t0"
      by (simp add: mkdir_parents.simps [of t start ps])
    with os_mkdir_adds_at [OF Inr, of q] "1.prems"(2) here show ?thesis by simp
  next
    case (Inl e)
    show ?thesis
    proof (cases "is_FileNotFoundError e")
      case False
      with Inl "1.prems" have "t' = t"
        by (simp add: mkdir_parents.simps [of t start ps] split: if_splits)
      with "1.prems"(2) show ?thesis by simp
    next
      case True
      with Inl "1.prems" have ps: "ps \<noteq> []"
        by (auto simp: mkdir_parents.simps [of t start ps] split: if_splits)
      with Inl True "1.prems" obtain t1 where
        r: "mkdir_parents t start (butlast ps) = Inr t1"
        by (cases "mkdir_parents t start (butlast ps)")
           (simp_all add: mkdir_parents.simps [of t start ps])
      note ih = "1.IH" [OF Inl True ps r]
      show ?thesis
      proof (cases "os_mkdir t1 start ps")
        case (Inr t2)
        with Inl True ps r "1.prems" have t2: "t' = t2"
          by (simp add: mkdir_parents.simps [of t start ps])
        show ?thesis
        proof (cases "fs_node t1 q = fs_node t q")
          case True
          with "1.prems"(2) t2 have "fs_node t2 q \<noteq> fs_node t1 q" by simp
          from os_mkdir_adds_at [OF Inr this] here show ?thesis by simp
        next
          case False
          from up [OF ih [OF False]] show ?thesis .
        qed
      next
        case (Inl e2)
        with \<open>os_mkdir t start ps = Inl e\<close> True ps r "1.prems" have "t' = t1"
          by (simp add: mkdir_parents.simps [of t start ps] split: if_splits)
        with "1.prems"(2) have "fs_node t1 q \<noteq> fs_node t q" by simp
        from up [OF ih [OF this]] show ?thesis .
      qed
    qed
  qed
qed

lemma path_mkdir_adds_on_the_way:
  assumes "path_mkdir E t p = Inr t'" and "fs_node t' q \<noteq> fs_node t q"
  shows "q \<in> set (mkdir_keys E p)"
proof -
  let ?start = "if is_abs p then [] else cwd E"
  from assms have "\<exists>n. n \<le> length (parts p) \<and> q = normalise ?start (take n (parts p))"
    unfolding path_mkdir_def by (rule mkdir_parents_adds_on_the_way)
  then obtain n where n: "n \<le> length (parts p)" and q: "q = normalise ?start (take n (parts p))"
    by blast
  from n have "n \<in> set [0..<Suc (length (parts p))]"
    by (simp del: upt_Suc)
  then have "normalise ?start (take n (parts p)) \<in> set (mkdir_places ?start (parts p))"
    unfolding mkdir_places_def set_map by (rule imageI)
  with q show ?thesis
    by (simp add: mkdir_keys_def)
qed

lemma path_mkdir_change:
  assumes "path_mkdir E t p = Inr t'"
  shows "fs_node t' q = fs_node t q \<or>
         (fs_node t q = None \<and> fs_node t' q = Some Dir \<and> q \<in> set (mkdir_keys E p))"
  using path_mkdir_only_adds_directories [OF assms, of q] path_mkdir_adds_on_the_way [OF assms, of q]
  by (cases "fs_node t' q = fs_node t q") simp_all

text \<open>
  The directories are created along the path as it is written: for \<^verbatim>\<open>newdir/..\<close> the
  directory \<^verbatim>\<open>newdir\<close> is created, and for \<^verbatim>\<open>notes.txt/..\<close>, where \<^verbatim>\<open>notes.txt\<close> is
  a regular file, the call raises \<^verbatim>\<open>NotADirectoryError\<close>.
\<close>

lemma path_mkdir_as_written:
  "path_mkdir linux_host (fs w0) (Path False [''newdir'', ''..'']) =
     Inr (fs_put [''w'', ''newdir''] Dir (fs w0)) \<and>
   fs_node (fs w0) [''w'', ''newdir''] = None \<and>
   path_mkdir linux_host (fs w0) (Path False [''notes.txt'', ''..'']) = Inl NotADirectoryError \<and>
   fs_node (fs w0) [''w'', ''notes.txt''] = Some (File ''my notes'')"
  by code_simp

section \<open>The claims\<close>


subsection \<open>The format router in \<^verbatim>\<open>main\<close>\<close>







text \<open>
  Claim C2.  With no \<^verbatim>\<open>--to\<close> override, line 143 gives the other one of the two
  extensions: \<^verbatim>\<open>.pdf\<close> for \<^verbatim>\<open>.docx\<close> and \<^verbatim>\<open>.docx\<close> for \<^verbatim>\<open>.pdf\<close>.  In
  \<^verbatim>\<open>main\<close>, on an existing source, this means that a source whose lower-cased suffix
  is \<^verbatim>\<open>.docx\<close> goes to \<^verbatim>\<open>convert_docx_to_pdf\<close> with a \<^verbatim>\<open>.pdf\<close> output path, and
  one whose suffix is \<^verbatim>\<open>.pdf\<close> goes to \<^verbatim>\<open>convert_pdf_to_docx\<close> with a \<^verbatim>\<open>.docx\<close>
  output path.
\<close>

theorem default_target_is_the_other_format:
  "main_target_ext None ''.docx'' = ''.pdf'' \<and>
   main_target_ext None ''.pdf'' = ''.docx'' \<and>
   (main_src E a w = (Returns src, w1) \<and> path_exists E (fs w1) src \<and> to_arg a = None \<longrightarrow>
      (lower (suffix src) = ''.docx'' \<longrightarrow>
         main E a w =
           (case main_out (output_arg a) ''.pdf'' of
              Inl e \<Rightarrow> (Raises e, w1)
            | Inr out \<Rightarrow> convert_docx_to_pdf E src out w1)) \<and>
      (lower (suffix src) = ''.pdf'' \<longrightarrow>
         main E a w =
           (case main_out (output_arg a) ''.docx'' of
              Inl e \<Rightarrow> (Raises e, w1)
            | Inr out \<Rightarrow> convert_pdf_to_docx E src out w1)))"
  by (simp add: main_def main_target_ext_def Let_def split: sum.splits)

theorem default_target_is_the_other_format_witness:
  "main_src linux_host args_docx w0 = (Returns (Path True [''w'', ''resume.docx'']), w0) \<and>
   path_exists linux_host (fs w0) (Path True [''w'', ''resume.docx'']) \<and>
   to_arg args_docx = None \<and>
   lower (suffix (Path True [''w'', ''resume.docx''])) = ''.docx'' \<and>
   main linux_host args_docx w0 =
     convert_docx_to_pdf linux_host (Path True [''w'', ''resume.docx''])
       (Path False [''output_resume.pdf'']) w0"
proof -
  have 1: "main_src linux_host args_docx w0 = (Returns (Path True [''w'', ''resume.docx'']), w0)"
    by (simp add: main_src_def args_docx_def linux_host_def resolve_def)
  have 2: "path_exists linux_host (fs w0) (Path True [''w'', ''resume.docx''])"
    by (simp add: path_exists_def fskey_def resolve_def fs_node_def w0_def)
  have 3: "to_arg args_docx = None"
    by (simp add: args_docx_def)
  have 4: "lower (suffix (Path True [''w'', ''resume.docx''])) = ''.docx''"
    by (simp add: suffix_def name_suffix_def name_def lower_def lower_char_def)
  have 5: "main_out (output_arg args_docx) ''.pdf'' = Inr (Path False [''output_resume.pdf''])"
    by (simp add: main_out_def args_docx_def with_suffix_def parse_path_def suffix_def
          name_suffix_def name_def)
  from default_target_is_the_other_format
         [of linux_host args_docx w0 "Path True [''w'', ''resume.docx'']" w0] 1 2 3 4 5
  show ?thesis by simp
qed

subsection \<open>\<^verbatim>\<open>convert_docx_to_pdf\<close>\<close>

text \<open>
  Claim C3.  When the parent directories are there, \<^verbatim>\<open>docx2pdf\<close> raises and
  \<^verbatim>\<open>shutil.which\<close> finds no \<^verbatim>\<open>soffice\<close>, the call raises the \<^verbatim>\<open>RuntimeError\<close> of
  line 36, whose message names both missing requirements; the only event of the call
  is the one of \<^verbatim>\<open>docx2pdf\<close>, so no process was started.
\<close>

theorem docx_fallback_needs_soffice:
  assumes "path_mkdir E (fs w) (parent dst) = Inr t1"
    and "docx2pdf E (path_str src) (path_str dst) t1 = (Some e, t2)"
    and "which_soffice E = None"
  shows "convert_docx_to_pdf E src dst w =
           (Raises (RuntimeError
              ''docx2pdf requires Word and LibreOffice (soffice) was not found for fallback.''),
            w\<lparr>fs := t2, trace := trace w @ [Docx2pdf_call (path_str src) (path_str dst)]\<rparr>)"
  using assms by (simp add: convert_docx_to_pdf_def)

theorem docx_fallback_needs_soffice_witness:
  "path_mkdir bare_host (fs w0) (parent (Path False [''output_resume.pdf''])) = Inr (fs w0) \<and>
   docx2pdf bare_host (path_str (Path True [''w'', ''resume.docx'']))
       (path_str (Path False [''output_resume.pdf''])) (fs w0) =
     (Some (LibraryError ''docx2pdf is not implemented for linux''), fs w0) \<and>
   which_soffice bare_host = None \<and>
   convert_docx_to_pdf bare_host (Path True [''w'', ''resume.docx''])
       (Path False [''output_resume.pdf'']) w0 =
     (Raises (RuntimeError
        ''docx2pdf requires Word and LibreOffice (soffice) was not found for fallback.''),
      w0\<lparr>trace := [Docx2pdf_call ''/w/resume.docx'' ''output_resume.pdf'']\<rparr>)"
proof -
  have 1: "path_mkdir bare_host (fs w0) (parent (Path False [''output_resume.pdf''])) = Inr (fs w0)"
    by code_simp
  have 2: "docx2pdf bare_host (path_str (Path True [''w'', ''resume.docx'']))
       (path_str (Path False [''output_resume.pdf''])) (fs w0) =
     (Some (LibraryError ''docx2pdf is not implemented for linux''), fs w0)"
    by (simp add: bare_host_def linux_host_def docx2pdf_no_word_def)
  have 3: "which_soffice bare_host = None"
    by (simp add: bare_host_def)
  have 4: "trace w0 = []" by (simp add: w0_def)
  from docx_fallback_needs_soffice [OF 1 2 3] 1 2 3 4 show ?thesis
    by (simp add: path_str_def)
qed

text \<open>
  Claim C1 fails on the code.  On a Linux host \<^verbatim>\<open>docx2pdf\<close> raises, the fallback lets
  \<^verbatim>\<open>soffice\<close> write \<^verbatim>\<open>resume.pdf\<close> into the output directory, and
  \<^verbatim>\<open>convert_docx_to_pdf\<close> returns without moving it (lines 37 to 48 have no counterpart
  of lines 71 to 73): the call succeeds and \<^verbatim>\<open>output_resume.pdf\<close>, the destination that
  \<^verbatim>\<open>main(['resume.docx'])\<close> passes, does not exist.  In the other direction line 74
  returns after any exit status 0, also when \<^verbatim>\<open>soffice\<close> wrote nothing.
\<close>

theorem success_without_destination:
  "fst (convert_docx_to_pdf linux_host (Path True [''w'', ''resume.docx''])
          (Path False [''output_resume.pdf'']) w0) = Returns () \<and>
   \<not> path_exists linux_host
       (fs (snd (convert_docx_to_pdf linux_host (Path True [''w'', ''resume.docx''])
                   (Path False [''output_resume.pdf'']) w0)))
       (Path False [''output_resume.pdf'']) \<and>
   fs_node
       (fs (snd (convert_docx_to_pdf linux_host (Path True [''w'', ''resume.docx''])
                   (Path False [''output_resume.pdf'']) w0)))
       [''w'', ''resume.pdf''] = Some (File ''pdf of my resume'') \<and>
   fst (convert_pdf_to_docx silent_host (Path True [''w'', ''cv.pdf''])
          (Path False [''output_resume.docx'']) w0) = Returns () \<and>
   \<not> path_exists silent_host
       (fs (snd (convert_pdf_to_docx silent_host (Path True [''w'', ''cv.pdf''])
                   (Path False [''output_resume.docx'']) w0)))
       (Path False [''output_resume.docx''])"
  by code_simp

text \<open>
  Claim C9 fails on the code.  The \<^verbatim>\<open>subprocess.run\<close> of the fallback of
  \<^verbatim>\<open>convert_docx_to_pdf\<close> (lines 37 to 48) is called with \<^verbatim>\<open>check=True\<close> only: the
  trace has the call with \<^verbatim>\<open>capture_output\<close> false, and what \<^verbatim>\<open>soffice\<close> printed went
  to the caller's standard streams.
\<close>

theorem fallback_output_streamed:
  "trace (snd (convert_docx_to_pdf linux_host (Path True [''w'', ''resume.docx''])
                 (Path True [''w'', ''resume.pdf'']) w0)) =
     [Docx2pdf_call ''/w/resume.docx'' ''/w/resume.pdf'',
      Subprocess_run
        [''/usr/bin/soffice'', ''--headless'', ''--convert-to'', ''pdf'', ''--outdir'', ''/w'',
         ''/w/resume.docx'']
        True False,
      Child_output ''convert /w/resume.docx'']"
  by code_simp

subsection \<open>The output path of \<^verbatim>\<open>main\<close>\<close>

text \<open>The suffix of a name that ends in a dot and an extension without dots.\<close>

lemma rfind_absent: "c \<notin> set xs \<Longrightarrow> rfind c xs = None"
  by (induction xs) auto

lemma rfind_last_dot:
  "c \<notin> set e \<Longrightarrow> rfind c (stem @ c # e) = Some (length stem)"
  by (induction stem) (simp_all add: rfind_absent)

lemma name_suffix_appended:
  assumes "stem \<noteq> []" and "e \<noteq> []" and "CHR ''.'' \<notin> set e"
  shows "name_suffix (stem @ CHR ''.'' # e) = CHR ''.'' # e"
  using assms by (simp add: name_suffix_def rfind_last_dot)

lemma stem_not_empty:
  assumes "n \<noteq> []"
  shows "take (length n - length (name_suffix n)) n \<noteq> []"
proof (cases "name_suffix n = []")
  case True
  with assms show ?thesis by simp
next
  case False
  then obtain i where i: "rfind CHR ''.'' n = Some i" "0 < i" "Suc i < length n"
    and s: "name_suffix n = drop i n"
    by (auto simp: name_suffix_def split: option.splits if_splits)
  from i s have "length n - length (name_suffix n) = i" by simp
  with i assms show ?thesis by simp
qed

lemma with_suffix_name:
  assumes "with_suffix p s = Inr q"
  shows "name q = take (length (name p) - length (name_suffix (name p))) (name p) @ s \<and> name p \<noteq> []"
  using assms by (auto simp: with_suffix_def name_def suffix_def split: if_splits)

lemma suffix_with_suffix:
  assumes "with_suffix p (CHR ''.'' # e) = Inr q" and "e \<noteq> []" and "CHR ''.'' \<notin> set e"
  shows "suffix q = CHR ''.'' # e"
proof -
  from with_suffix_name [OF assms(1)]
  have n: "name q = take (length (name p) - length (name_suffix (name p))) (name p) @ CHR ''.'' # e"
    and p: "name p \<noteq> []" by simp_all
  from stem_not_empty [OF p] assms(2,3) show ?thesis
    unfolding suffix_def n by (rule name_suffix_appended)
qed

lemma main_target_ext_cases:
  "main_target_ext t e = ''.pdf'' \<or> main_target_ext t e = ''.docx''"
  by (cases t; cases "the t") (auto simp: main_target_ext_def lower_def lower_char_def split: option.splits)

lemma main_out_suffix:
  assumes "main_out out_arg t = Inr out" and "t = ''.pdf'' \<or> t = ''.docx''"
  shows "lower (suffix out) = t \<and>
         (case out_arg of
            None \<Rightarrow> suffix out = t
          | Some given \<Rightarrow> if lower (suffix given) = t then out = given else suffix out = t)"
proof -
  have w: "suffix q = t" if "with_suffix p t = Inr q" for p q
    using assms(2) that by (auto intro: suffix_with_suffix)
  have l: "lower t = t"
    using assms(2) by (auto simp: lower_def lower_char_def)
  show ?thesis
  proof (cases out_arg)
    case None
    with assms(1) have "suffix out = t"
      by (simp add: main_out_def w)
    with None l show ?thesis by simp
  next
    case (Some given)
    show ?thesis
    proof (cases "lower (suffix given) = t")
      case True
      with Some assms(1) show ?thesis by (simp add: main_out_def)
    next
      case False
      with Some assms(1) have "suffix out = t"
        by (simp add: main_out_def w)
      with Some False l show ?thesis by simp
    qed
  qed
qed

text \<open>
  Claim C8, as amended.  Whenever \<^verbatim>\<open>main\<close> reaches the conversion step, that is, the
  source exists, its suffix is supported, the target extension differs from it and the
  output path could be computed, the converter is called with an output path whose
  lower-cased suffix is the target extension and whose suffix is not the suffix of the
  source.  The default name and a coerced path carry the target extension itself; a
  path given with the target extension in another letter case is passed on unchanged.
\<close>

theorem output_extension_matches_target:
  assumes "main_src E a w = (Returns src, w1)"
    and "path_exists E (fs w1) src"
    and "lower (suffix src) \<in> {''.docx'', ''.pdf''}"
    and "t = main_target_ext (to_arg a) (lower (suffix src))"
    and "t \<noteq> lower (suffix src)"
    and "main_out (output_arg a) t = Inr out"
  shows "main E a w =
           (if t = ''.pdf'' then convert_docx_to_pdf E src out w1
            else convert_pdf_to_docx E src out w1) \<and>
         lower (suffix out) = t \<and>
         suffix out \<noteq> suffix src \<and>
         (case output_arg a of
            None \<Rightarrow> suffix out = t
          | Some given \<Rightarrow> if lower (suffix given) = t then out = given else suffix out = t)"
proof -
  from assms(4) main_target_ext_cases have t: "t = ''.pdf'' \<or> t = ''.docx''"
    by simp
  note s = main_out_suffix [OF assms(6) t]
  from s assms(5) have "suffix out \<noteq> suffix src" by auto
  moreover from assms(3) have "lower (suffix src) \<in> set [''.docx'', ''.pdf'']"
    by auto
  with assms(1,2,5,6) assms(4) [symmetric] have "main E a w =
           (if t = ''.pdf'' then convert_docx_to_pdf E src out w1
            else convert_pdf_to_docx E src out w1)"
    by (simp add: main_def Let_def del: set_simps)
  ultimately show ?thesis using s by simp
qed

theorem output_extension_matches_target_witness:
  "main_src linux_host args_txt_out w0 = (Returns (Path True [''w'', ''cv.pdf'']), w0) \<and>
   path_exists linux_host (fs w0) (Path True [''w'', ''cv.pdf'']) \<and>
   lower (suffix (Path True [''w'', ''cv.pdf''])) \<in> {''.docx'', ''.pdf''} \<and>
   ''.docx'' = main_target_ext (to_arg args_txt_out) (lower (suffix (Path True [''w'', ''cv.pdf'']))) \<and>
   ''.docx'' \<noteq> lower (suffix (Path True [''w'', ''cv.pdf''])) \<and>
   main_out (output_arg args_txt_out) ''.docx'' = Inr (Path False [''out.docx'']) \<and>
   main linux_host args_txt_out w0 =
     convert_pdf_to_docx linux_host (Path True [''w'', ''cv.pdf'']) (Path False [''out.docx'']) w0 \<and>
   lower (suffix (Path False [''out.docx''])) = ''.docx'' \<and>
   suffix (Path False [''out.docx'']) \<noteq> suffix (Path True [''w'', ''cv.pdf''])"
proof -
  have 1: "main_src linux_host args_txt_out w0 = (Returns (Path True [''w'', ''cv.pdf'']), w0)"
    by (simp add: main_src_def args_txt_out_def linux_host_def resolve_def)
  have 2: "path_exists linux_host (fs w0) (Path True [''w'', ''cv.pdf''])"
    by (simp add: path_exists_def fskey_def resolve_def fs_node_def w0_def)
  have e: "lower (suffix (Path True [''w'', ''cv.pdf''])) = ''.pdf''"
    by (simp add: suffix_def name_suffix_def name_def lower_def lower_char_def)
  have 3: "lower (suffix (Path True [''w'', ''cv.pdf''])) \<in> {''.docx'', ''.pdf''}"
    by (simp add: e)
  have 4: "''.docx'' = main_target_ext (to_arg args_txt_out) (lower (suffix (Path True [''w'', ''cv.pdf''])))"
    by (simp add: e main_target_ext_def args_txt_out_def)
  have 5: "''.docx'' \<noteq> lower (suffix (Path True [''w'', ''cv.pdf'']))"
    by (simp add: e)
  have 6: "main_out (output_arg args_txt_out) ''.docx'' = Inr (Path False [''out.docx''])"
    by (simp add: main_out_def args_txt_out_def with_suffix_def suffix_def name_suffix_def
          name_def lower_def lower_char_def)
  from output_extension_matches_target [OF 1 2 3 4 5 6] 1 2 3 4 5 6 show ?thesis by simp
qed

text \<open>
  The claim as it is written asks for equality of the extensions.  Line 150 compares the
  lower-cased suffix, so \<^verbatim>\<open>-o out.PDF\<close> is not coerced: the converter is called with
  \<^verbatim>\<open>out.PDF\<close>, whose extension is not \<^verbatim>\<open>.pdf\<close>.
\<close>

theorem output_extension_kept_in_upper_case:
  "main_out (output_arg args_upper_out) ''.pdf'' = Inr (Path False [''out.PDF'']) \<and>
   suffix (Path False [''out.PDF'']) = ''.PDF'' \<and>
   main linux_host args_upper_out w0 =
     convert_docx_to_pdf linux_host (Path True [''w'', ''resume.docx'']) (Path False [''out.PDF'']) w0 \<and>
   trace (snd (main linux_host args_upper_out w0)) ! 0 = Docx2pdf_call ''/w/resume.docx'' ''out.PDF''"
  by code_simp

subsection \<open>\<^verbatim>\<open>convert_pdf_to_docx\<close>\<close>


lemma soffice_tier_not_started:
  assumes "run_proc E (soffice_argv s ''docx'' src dst) (fs w) = Not_started se"
  shows "soffice_tier E s src dst w =
           (Raises (start_exn (soffice_argv s ''docx'' src dst) se),
            w\<lparr>trace := trace w @ [Subprocess_run (soffice_argv s ''docx'' src dst) True True]\<rparr>)"
  using assms by (simp add: soffice_tier_def subprocess_run_def)

lemma soffice_tier_failed:
  assumes "run_proc E (soffice_argv s ''docx'' src dst) (fs w) = Exited rc out t2" and "rc \<noteq> 0"
  shows "soffice_tier E s src dst w =
           (Raises (CalledProcessError rc),
            w\<lparr>fs := t2,
              trace := trace w @ [Subprocess_run (soffice_argv s ''docx'' src dst) True True]\<rparr>)"
  using assms by (simp add: soffice_tier_def subprocess_run_def)

lemma soffice_tier_exit_0:
  assumes "run_proc E (soffice_argv s ''docx'' src dst) (fs w) = Exited 0 out t2"
    and "w2 = w\<lparr>fs := t2,
                 trace := trace w @ [Subprocess_run (soffice_argv s ''docx'' src dst) True True]\<rparr>"
  shows "soffice_tier E s src dst w =
           (case with_suffix src ''.docx'' of
              Inl e \<Rightarrow> (Raises e, w2)
            | Inr p \<Rightarrow>
                if path_exists E t2 (joinpath (parent dst) (name p)) \<and>
                   joinpath (parent dst) (name p) \<noteq> dst
                then (case path_rename E t2 (joinpath (parent dst) (name p)) dst of
                        Inl e \<Rightarrow> (Raises e, w2)
                      | Inr t3 \<Rightarrow> (Returns (), w2\<lparr>fs := t3\<rparr>))
                else (Returns (), w2))"
  using assms by (simp add: soffice_tier_def subprocess_run_def Let_def split: sum.splits)















subsection \<open>What the conversions leave alone\<close>

text \<open>A process changes the file system only when it was started.\<close>

lemma subprocess_run_fs:
  "fs (snd (subprocess_run E argv check capture w)) = proc_fs (run_proc E argv (fs w)) (fs w)"
  by (simp add: subprocess_run_def split: proc_result.splits)

lemma convert_docx_to_pdf_frame:
  assumes d: "\<forall>t. fs_node (snd (docx2pdf E (path_str src) (path_str dst) t)) k = fs_node t k"
    and r: "\<forall>s. which_soffice E = Some s \<longrightarrow>
              (\<forall>t. fs_node (proc_fs (run_proc E (soffice_argv s ''pdf'' src dst) t) t) k = fs_node t k)"
  shows "fs_node (fs (snd (convert_docx_to_pdf E src dst w))) k = fs_node (fs w) k \<or>
         (fs_node (fs w) k = None \<and>
          fs_node (fs (snd (convert_docx_to_pdf E src dst w))) k = Some Dir \<and>
          k \<in> set (mkdir_keys E (parent dst)))"
proof (cases "path_mkdir E (fs w) (parent dst)")
  case (Inl e)
  then show ?thesis by (simp add: convert_docx_to_pdf_def)
next
  case (Inr t1)
  note made = path_mkdir_change [OF Inr, of k]
  obtain res t2 where lib: "docx2pdf E (path_str src) (path_str dst) t1 = (res, t2)"
    by (cases "docx2pdf E (path_str src) (path_str dst) t1") auto
  with d [rule_format, of t1] have t2: "fs_node t2 k = fs_node t1 k"
    by simp
  have "fs_node (fs (snd (convert_docx_to_pdf E src dst w))) k = fs_node t1 k"
  proof (cases res)
    case None
    with Inr lib t2 show ?thesis by (simp add: convert_docx_to_pdf_def)
  next
    case (Some e)
    show ?thesis
    proof (cases "which_soffice E")
      case None
      with Inr lib Some t2 show ?thesis by (simp add: convert_docx_to_pdf_def)
    next
      case (Some s)
      with Inr lib \<open>res = Some e\<close> t2 r [rule_format, of s t2] show ?thesis
        by (simp add: convert_docx_to_pdf_def subprocess_run_fs)
    qed
  qed
  with made show ?thesis by auto
qed

lemma pdf2docx_tier_fs:
  "fs (snd (pdf2docx_tier E src dst w)) = snd (pdf2docx E (path_str src) (path_str dst) (fs w))"
  by (simp add: pdf2docx_tier_def split: prod.splits)

lemma soffice_tier_frame:
  assumes r: "\<forall>t. fs_node (proc_fs (run_proc E (soffice_argv s ''docx'' src dst) t) t) k = fs_node t k"
    and nd: "\<not> at_or_below (fskey E dst) k"
    and nl: "\<forall>q. with_suffix src ''.docx'' = Inr q \<longrightarrow>
               \<not> at_or_below (fskey E (joinpath (parent dst) (name q))) k"
  shows "fs_node (fs (snd (soffice_tier E s src dst w))) k = fs_node (fs w) k"
proof (cases "run_proc E (soffice_argv s ''docx'' src dst) (fs w)")
  case (Not_started se)
  from soffice_tier_not_started [OF this] show ?thesis by simp
next
  case (Exited rc out t2)
  with r [rule_format, of "fs w"] have t2: "fs_node t2 k = fs_node (fs w) k"
    by simp
  show ?thesis
  proof (cases "rc = 0")
    case False
    from soffice_tier_failed [OF Exited False] t2 show ?thesis by simp
  next
    case True
    with Exited have run0: "run_proc E (soffice_argv s ''docx'' src dst) (fs w) = Exited 0 out t2"
      by simp
    note tier = soffice_tier_exit_0 [OF run0 refl]
    show ?thesis
    proof (cases "with_suffix src ''.docx''")
      case (Inl e)
      with tier t2 show ?thesis by simp
    next
      case (Inr p)
      let ?lo = "joinpath (parent dst) (name p)"
      from nl Inr have nlo: "\<not> at_or_below (fskey E ?lo) k" by simp
      show ?thesis
      proof (cases "path_rename E t2 ?lo dst")
        case (Inl e)
        with tier Inr t2 show ?thesis by simp
      next
        case (Inr t3)
        then have "fs_node t3 k = fs_node t2 k"
          unfolding path_rename_def using nlo nd by (rule fs_rename_frame)
        with tier Inr \<open>with_suffix src ''.docx'' = Inr p\<close> t2 show ?thesis by simp
      qed
    qed
  qed
qed

lemma convert_pdf_to_docx_frame:
  assumes r: "\<forall>s. which_soffice E = Some s \<longrightarrow>
              (\<forall>t. fs_node (proc_fs (run_proc E (soffice_argv s ''docx'' src dst) t) t) k = fs_node t k)"
    and p: "\<forall>t. fs_node (snd (pdf2docx E (path_str src) (path_str dst) t)) k = fs_node t k"
    and nd: "\<not> at_or_below (fskey E dst) k"
    and nl: "\<forall>q. with_suffix src ''.docx'' = Inr q \<longrightarrow>
               \<not> at_or_below (fskey E (joinpath (parent dst) (name q))) k"
  shows "fs_node (fs (snd (convert_pdf_to_docx E src dst w))) k = fs_node (fs w) k \<or>
         (fs_node (fs w) k = None \<and>
          fs_node (fs (snd (convert_pdf_to_docx E src dst w))) k = Some Dir \<and>
          k \<in> set (mkdir_keys E (parent dst)))"
proof (cases "path_mkdir E (fs w) (parent dst)")
  case (Inl e)
  then show ?thesis by (simp add: convert_pdf_to_docx_def)
next
  case (Inr t1)
  note made = path_mkdir_change [OF Inr, of k]
  have lib: "fs_node (fs (snd (pdf2docx_tier E src dst w'))) k = fs_node (fs w') k" for w'
    using p by (simp add: pdf2docx_tier_fs)
  have "fs_node (fs (snd (convert_pdf_to_docx E src dst w))) k = fs_node t1 k"
  proof (cases "which_soffice E")
    case None
    with Inr lib [of "w\<lparr>fs := t1\<rparr>"] show ?thesis
      by (simp add: convert_pdf_to_docx_def)
  next
    case (Some s)
    obtain res w2 where tier: "soffice_tier E s src dst (w\<lparr>fs := t1\<rparr>) = (res, w2)"
      by (cases "soffice_tier E s src dst (w\<lparr>fs := t1\<rparr>)") auto
    from r Some have "\<forall>t. fs_node (proc_fs (run_proc E (soffice_argv s ''docx'' src dst) t) t) k = fs_node t k"
      by simp
    from soffice_tier_frame [OF this nd nl, of "w\<lparr>fs := t1\<rparr>"] tier
    have w2: "fs_node (fs w2) k = fs_node t1 k" by simp
    with Inr Some tier lib [of w2] show ?thesis
      by (simp add: convert_pdf_to_docx_def)
  qed
  with made show ?thesis by auto
qed

text \<open>
  Claim C10, as amended.  Take an entry of the file system.

  \<^verbatim>\<open>convert_docx_to_pdf\<close>: when \<^verbatim>\<open>docx2pdf\<close>, called on this source and destination,
  leaves the entry alone, and so does the \<^verbatim>\<open>soffice\<close> that is found, run to convert
  this source to \<^verbatim>\<open>pdf\<close>, then after the call the entry is as before, or nothing was
  there before and a directory is there now, at a place where the destination's parent
  or one of its parents leads.

  \<^verbatim>\<open>convert_pdf_to_docx\<close>: when the \<^verbatim>\<open>soffice\<close> that is found, run to convert this
  source to \<^verbatim>\<open>docx\<close>, leaves the entry alone, and so does \<^verbatim>\<open>pdf2docx\<close>, called on
  this source and destination, then the same holds, provided the entry is not at or
  below the destination and not at or below the place where the office-suite output is
  looked for (the destination's directory, the base name of the source with
  \<^verbatim>\<open>.docx\<close>).

  So what the two functions do to the file system themselves is to create the
  destination's parent directories where nothing was and to rename that \<^verbatim>\<open>.docx\<close>
  entry to the destination.  For the
  source file this means: neither function changes or removes it, unless the call of
  \<^verbatim>\<open>convert_pdf_to_docx\<close> names it as the destination or gives a source that already
  is that \<^verbatim>\<open>.docx\<close> file.  Each function is held only to what the converters do in
  the calls it makes, with its own output format.
\<close>

theorem conversions_leave_other_entries:
  "((\<forall>t. fs_node (snd (docx2pdf E (path_str src) (path_str dst) t)) k = fs_node t k) \<and>
    (\<forall>s. which_soffice E = Some s \<longrightarrow>
       (\<forall>t. fs_node (proc_fs (run_proc E (soffice_argv s ''pdf'' src dst) t) t) k = fs_node t k)) \<longrightarrow>
    fs_node (fs (snd (convert_docx_to_pdf E src dst w))) k = fs_node (fs w) k \<or>
    (fs_node (fs w) k = None \<and>
     fs_node (fs (snd (convert_docx_to_pdf E src dst w))) k = Some Dir \<and>
     k \<in> set (mkdir_keys E (parent dst)))) \<and>
   ((\<forall>s. which_soffice E = Some s \<longrightarrow>
       (\<forall>t. fs_node (proc_fs (run_proc E (soffice_argv s ''docx'' src dst) t) t) k = fs_node t k)) \<and>
    (\<forall>t. fs_node (snd (pdf2docx E (path_str src) (path_str dst) t)) k = fs_node t k) \<and>
    \<not> at_or_below (fskey E dst) k \<and>
    (\<forall>q. with_suffix src ''.docx'' = Inr q \<longrightarrow>
       \<not> at_or_below (fskey E (joinpath (parent dst) (name q))) k) \<longrightarrow>
    fs_node (fs (snd (convert_pdf_to_docx E src dst w))) k = fs_node (fs w) k \<or>
    (fs_node (fs w) k = None \<and>
     fs_node (fs (snd (convert_pdf_to_docx E src dst w))) k = Some Dir \<and>
     k \<in> set (mkdir_keys E (parent dst))))"
  using convert_docx_to_pdf_frame [of E src dst k w] convert_pdf_to_docx_frame [of E src dst k w]
  by blast

theorem conversions_leave_other_entries_witness:
  "(\<forall>t. fs_node (snd (docx2pdf linux_host (path_str (Path True [''w'', ''resume.docx'']))
                        (path_str (Path False [''output_resume.pdf''])) t)) [''w'', ''resume.docx''] =
        fs_node t [''w'', ''resume.docx'']) \<and>
   which_soffice linux_host = Some ''/usr/bin/soffice'' \<and>
   (\<forall>t. fs_node (proc_fs (run_proc linux_host
                     (soffice_argv ''/usr/bin/soffice'' ''pdf'' (Path True [''w'', ''resume.docx''])
                        (Path False [''output_resume.pdf''])) t) t) [''w'', ''resume.docx''] =
        fs_node t [''w'', ''resume.docx'']) \<and>
   fs_node (fs w0) [''w'', ''resume.docx''] = Some (File ''my resume'') \<and>
   fs_node
       (fs (snd (convert_docx_to_pdf linux_host (Path True [''w'', ''resume.docx''])
                   (Path False [''output_resume.pdf'']) w0)))
       [''w'', ''resume.docx''] = Some (File ''my resume'') \<and>
   fs_node
       (fs (snd (convert_docx_to_pdf linux_host (Path True [''w'', ''resume.docx''])
                   (Path False [''output_resume.pdf'']) w0)))
       [''w'', ''resume.pdf''] = Some (File ''pdf of my resume'') \<and>
   (\<forall>t. fs_node (proc_fs (run_proc linux_host
                     (soffice_argv ''/usr/bin/soffice'' ''docx'' (Path True [''w'', ''cv.pdf''])
                        (Path False [''output_resume.docx''])) t) t) [''w'', ''cv.pdf''] =
        fs_node t [''w'', ''cv.pdf'']) \<and>
   (\<forall>t. fs_node (snd (pdf2docx linux_host (path_str (Path True [''w'', ''cv.pdf'']))
                        (path_str (Path False [''output_resume.docx''])) t)) [''w'', ''cv.pdf''] =
        fs_node t [''w'', ''cv.pdf'']) \<and>
   fs_node (fs w0) [''w'', ''cv.pdf''] = Some (File ''my cv'') \<and>
   fs_node
       (fs (snd (convert_pdf_to_docx linux_host (Path True [''w'', ''cv.pdf''])
                   (Path False [''output_resume.docx'']) w0)))
       [''w'', ''cv.pdf''] = Some (File ''my cv'') \<and>
   fs_node
       (fs (snd (convert_pdf_to_docx linux_host (Path True [''w'', ''cv.pdf''])
                   (Path False [''output_resume.docx'']) w0)))
       [''w'', ''output_resume.docx''] = Some (File ''docx of my cv'')"
proof -
  let ?docx = "Path True [''w'', ''resume.docx'']"
  let ?to_pdf = "Path False [''output_resume.pdf'']"
  let ?pdf = "Path True [''w'', ''cv.pdf'']"
  let ?to_docx = "Path False [''output_resume.docx'']"
  have d: "\<forall>t. fs_node (snd (docx2pdf linux_host (path_str ?docx) (path_str ?to_pdf) t))
                 [''w'', ''resume.docx''] = fs_node t [''w'', ''resume.docx'']"
    by (simp add: linux_host_def docx2pdf_no_word_def)
  have wh: "which_soffice linux_host = Some ''/usr/bin/soffice''"
    by (simp add: linux_host_def)
  have r1: "\<forall>t. fs_node (proc_fs (run_proc linux_host
                         (soffice_argv ''/usr/bin/soffice'' ''pdf'' ?docx ?to_pdf) t) t)
              [''w'', ''resume.docx''] = fs_node t [''w'', ''resume.docx'']"
    by (simp add: linux_host_def soffice_headless_def soffice_argv_def path_str_def parent_def
          parse_path_def resolve_def with_suffix_def name_def suffix_def name_suffix_def
          joinpath_def fs_node_put split: option.splits node.splits)
  have e1: "fs_node (fs w0) [''w'', ''resume.docx''] = Some (File ''my resume'')"
    by (simp add: w0_def fs_node_def)
  have c1: "fs_node (fs (snd (convert_docx_to_pdf linux_host ?docx ?to_pdf w0)))
              [''w'', ''resume.pdf''] = Some (File ''pdf of my resume'')"
    by code_simp
  have r2: "\<forall>t. fs_node (proc_fs (run_proc linux_host
                         (soffice_argv ''/usr/bin/soffice'' ''docx'' ?pdf ?to_docx) t) t)
              [''w'', ''cv.pdf''] = fs_node t [''w'', ''cv.pdf'']"
    by (simp add: linux_host_def soffice_headless_def soffice_argv_def path_str_def parent_def
          parse_path_def resolve_def with_suffix_def name_def suffix_def name_suffix_def
          joinpath_def fs_node_put split: option.splits node.splits)
  have p: "\<forall>t. fs_node (snd (pdf2docx linux_host (path_str ?pdf) (path_str ?to_docx) t))
                 [''w'', ''cv.pdf''] = fs_node t [''w'', ''cv.pdf'']"
    by (simp add: linux_host_def pdf2docx_writes_def path_str_def parse_path_def
          resolve_def fs_node_put split: option.splits node.splits)
  have e2: "fs_node (fs w0) [''w'', ''cv.pdf''] = Some (File ''my cv'')"
    by (simp add: w0_def fs_node_def)
  have nd: "\<not> at_or_below (fskey linux_host ?to_docx) [''w'', ''cv.pdf'']"
    by code_simp
  have ws: "with_suffix ?pdf ''.docx'' = Inr (Path True [''w'', ''cv.docx''])"
    by code_simp
  have nl: "\<not> at_or_below
               (fskey linux_host (joinpath (parent ?to_docx) (name (Path True [''w'', ''cv.docx'']))))
               [''w'', ''cv.pdf'']"
    by code_simp
  have c2: "fs_node (fs (snd (convert_pdf_to_docx linux_host ?pdf ?to_docx w0)))
              [''w'', ''output_resume.docx''] = Some (File ''docx of my cv'')"
    by code_simp
  from conversions_leave_other_entries [of linux_host ?docx ?to_pdf "[''w'', ''resume.docx'']" w0]
    d wh r1 e1
  have k1: "fs_node (fs (snd (convert_docx_to_pdf linux_host ?docx ?to_pdf w0)))
              [''w'', ''resume.docx''] = Some (File ''my resume'')"
    by auto
  from conversions_leave_other_entries [of linux_host ?pdf ?to_docx "[''w'', ''cv.pdf'']" w0]
    wh r2 p nd nl ws e2
  have k2: "fs_node (fs (snd (convert_pdf_to_docx linux_host ?pdf ?to_docx w0)))
              [''w'', ''cv.pdf''] = Some (File ''my cv'')"
    by auto
  from d wh r1 e1 k1 c1 r2 p e2 k2 c2 show ?thesis
    by (intro conjI)
qed

text \<open>
  Without the proviso the claim fails.  Called on a source named \<^verbatim>\<open>resume.docx\<close> with
  a destination in the same directory, line 71 computes the path of the source itself;
  when \<^verbatim>\<open>soffice\<close> exits with status 0 and has written nothing, line 72 finds the
  source there and line 73 renames it to the destination.
\<close>

theorem source_renamed_away:
  "fs_node (fs w0) (fskey silent_host (Path True [''w'', ''resume.docx''])) = Some (File ''my resume'') \<and>
   run_proc silent_host
       (soffice_argv ''/usr/bin/soffice'' ''docx'' (Path True [''w'', ''resume.docx''])
          (Path True [''w'', ''out.docx'']))
       (fs w0) = Exited 0 ''Error: no export filter'' (fs w0) \<and>
   fst (convert_pdf_to_docx silent_host (Path True [''w'', ''resume.docx''])
          (Path True [''w'', ''out.docx'']) w0) = Returns () \<and>
   trace (snd (convert_pdf_to_docx silent_host (Path True [''w'', ''resume.docx''])
                 (Path True [''w'', ''out.docx'']) w0)) =
     [Subprocess_run
        [''/usr/bin/soffice'', ''--headless'', ''--convert-to'', ''docx'', ''--outdir'', ''/w'',
         ''/w/resume.docx'']
        True True] \<and>
   fs_node
       (fs (snd (convert_pdf_to_docx silent_host (Path True [''w'', ''resume.docx''])
                   (Path True [''w'', ''out.docx'']) w0)))
       (fskey silent_host (Path True [''w'', ''resume.docx''])) = None \<and>
   fs_node
       (fs (snd (convert_pdf_to_docx silent_host (Path True [''w'', ''resume.docx''])
                   (Path True [''w'', ''out.docx'']) w0)))
       (fskey silent_host (Path True [''w'', ''out.docx''])) = Some (File ''my resume'')"
  by code_simp

end
